theory Spec2Isabelle
  imports Complex_Main "HOL-Library.AList"
begin

section \<open>Errors and results\<close>

text \<open>
  Every exception the modelled code can raise is a value. A computation that may raise
  returns \<open>py_error + 'a\<close>; \<open>bindE\<close> sequences two such computations and stops at the
  first exception, as Python does.
\<close>

datatype py_error =
    ZeroDivisionError
  | EinopsError
  | RuntimeError
  | IndexError
  | AttributeError
  | AssertionError

definition bindE :: "py_error + 'a \<Rightarrow> ('a \<Rightarrow> py_error + 'b) \<Rightarrow> py_error + 'b" where
  "bindE r f = (case r of Inl e \<Rightarrow> Inl e | Inr y \<Rightarrow> f y)"

section \<open>Feature tensors\<close>

text \<open>
  A rank-4 tensor with axes (batch, channel, height, width): its shape and its elements
  by index. Only the elements inside the shape belong to the tensor.
\<close>

record 'a tensor4 =
  nb :: nat
  nc :: nat
  nh :: nat
  nw :: nat
  el :: "nat \<Rightarrow> nat \<Rightarrow> nat \<Rightarrow> nat \<Rightarrow> 'a"

type_synonym shape4 = "nat \<times> nat \<times> nat \<times> nat"

definition shape_of :: "'a tensor4 \<Rightarrow> shape4" where
  "shape_of x = (nb x, nc x, nh x, nw x)"



text \<open>Elementwise sum \<^verbatim>\<open>x + y\<close> of two tensors of one shape.\<close>

definition add_t :: "'a::plus tensor4 \<Rightarrow> 'a tensor4 \<Rightarrow> 'a tensor4" where
  "add_t x y = \<lparr>nb = nb x, nc = nc x, nh = nh x, nw = nw x,
                el = (\<lambda>b c i j. el x b c i j + el y b c i j)\<rparr>"

text \<open>
  \<^verbatim>\<open>F.pad(x, (0, pad_r, 0, pad_b, 0, 0))\<close>: zeros are appended at the right of the width
  axis and at the bottom of the height axis, nothing at the left or the top.
\<close>

definition pad :: "'a::zero tensor4 \<Rightarrow> nat \<Rightarrow> nat \<Rightarrow> 'a tensor4" where
  "pad x pad_r pad_b =
     \<lparr>nb = nb x, nc = nc x, nh = nh x + pad_b, nw = nw x + pad_r,
      el = (\<lambda>b c i j. if i < nh x \<and> j < nw x then el x b c i j else 0)\<rparr>"

text \<open>The slice \<^verbatim>\<open>x[:, :, :H, :W]\<close>.\<close>

definition crop :: "'a tensor4 \<Rightarrow> nat \<Rightarrow> nat \<Rightarrow> 'a tensor4" where
  "crop x H W = \<lparr>nb = nb x, nc = nc x, nh = min H (nh x), nw = min W (nw x), el = el x\<rparr>"

section \<open>Window geometry\<close>

text \<open>
  The first lines of each of the three \<^verbatim>\<open>forward\<close> methods are the same:
  \<^verbatim>\<open>
    if self.window_size <= 0:
        window_size_W, window_size_H = W, H
    else:
        window_size_W, window_size_H = self.window_size, self.window_size
    pad_l, pad_t = 0, 0
    pad_r = (window_size_W - W % window_size_W) % window_size_W
    pad_b = (window_size_H - H % window_size_H) % window_size_H
    ...
    n1, n2 = (H + pad_b) // window_size_H, (W + pad_r) // window_size_W
  \<close>
  Python's \<^verbatim>\<open>%\<close> raises ZeroDivisionError on a zero modulus, which happens when the
  window size is not positive and the tensor has zero width or height.
\<close>

record geometry =
  window_size_H :: nat
  window_size_W :: nat
  pad_l :: nat
  pad_t :: nat
  pad_r :: nat
  pad_b :: nat
  n1 :: nat
  n2 :: nat

definition window_geometry :: "int \<Rightarrow> nat \<Rightarrow> nat \<Rightarrow> py_error + geometry" where
  "window_geometry window_size H W =
     (let wW = (if window_size \<le> 0 then W else nat window_size);
          wH = (if window_size \<le> 0 then H else nat window_size)
      in if wW = 0 then Inl ZeroDivisionError
         else if wH = 0 then Inl ZeroDivisionError
         else
           let pr = (wW - W mod wW) mod wW;
               pb = (wH - H mod wH) mod wH
           in Inr \<lparr>window_size_H = wH, window_size_W = wW, pad_l = 0, pad_t = 0,
                   pad_r = pr, pad_b = pb,
                   n1 = (H + pb) div wH, n2 = (W + pr) div wW\<rparr>)"

section \<open>Tiling and un-tiling\<close>

text \<open>
  \<^verbatim>\<open>einops.rearrange\<close> is library code. In a composite axis \<^verbatim>\<open>(p q)\<close> the first name is
  the slow index: position \<open>i\<close> of the axis is \<open>i = ip * q + iq\<close>. The lengths given by
  keyword must divide the axis, and the remaining length is found by division, so a
  keyword length of zero or one that does not divide the axis makes \<^verbatim>\<open>rearrange\<close> raise.
\<close>

text \<open>Remote (strided) tiling: \<^verbatim>\<open>'b c (h1 n1) (w1 n2) -> (b n1 n2) c h1 w1'\<close>.\<close>

definition tile_remote :: "nat \<Rightarrow> nat \<Rightarrow> 'a tensor4 \<Rightarrow> py_error + 'a tensor4" where
  "tile_remote m1 m2 x =
     (if m1 = 0 \<or> m2 = 0 \<or> nh x mod m1 \<noteq> 0 \<or> nw x mod m2 \<noteq> 0 then Inl EinopsError
      else Inr \<lparr>nb = nb x * m1 * m2, nc = nc x, nh = nh x div m1, nw = nw x div m2,
                el = (\<lambda>bb c p q.
                  el x (bb div (m1 * m2)) c (p * m1 + (bb div m2) mod m1) (q * m2 + bb mod m2))\<rparr>)"

text \<open>Close (contiguous) tiling: \<^verbatim>\<open>'b c (n1 h1) (n2 w1) -> (b n1 n2) c h1 w1'\<close>.\<close>

definition tile_close :: "nat \<Rightarrow> nat \<Rightarrow> 'a tensor4 \<Rightarrow> py_error + 'a tensor4" where
  "tile_close m1 m2 x =
     (if m1 = 0 \<or> m2 = 0 \<or> nh x mod m1 \<noteq> 0 \<or> nw x mod m2 \<noteq> 0 then Inl EinopsError
      else Inr \<lparr>nb = nb x * m1 * m2, nc = nc x, nh = nh x div m1, nw = nw x div m2,
                el = (\<lambda>bb c p q.
                  el x (bb div (m1 * m2)) c
                    (((bb div m2) mod m1) * (nh x div m1) + p)
                    ((bb mod m2) * (nw x div m2) + q))\<rparr>)"

text \<open>Remote un-tiling: \<^verbatim>\<open>'(b n1 n2) c h1 w1 -> b c (h1 n1) (w1 n2)'\<close>.\<close>

definition untile_remote :: "nat \<Rightarrow> nat \<Rightarrow> 'a tensor4 \<Rightarrow> py_error + 'a tensor4" where
  "untile_remote m1 m2 y =
     (if m1 = 0 \<or> m2 = 0 \<or> nb y mod (m1 * m2) \<noteq> 0 then Inl EinopsError
      else Inr \<lparr>nb = nb y div (m1 * m2), nc = nc y, nh = nh y * m1, nw = nw y * m2,
                el = (\<lambda>b c i j.
                  el y ((b * m1 + i mod m1) * m2 + j mod m2) c (i div m1) (j div m2))\<rparr>)"

text \<open>Close un-tiling: \<^verbatim>\<open>'(b n1 n2) c h1 w1 -> b c (n1 h1) (n2 w1)'\<close>.\<close>

definition untile_close :: "nat \<Rightarrow> nat \<Rightarrow> 'a tensor4 \<Rightarrow> py_error + 'a tensor4" where
  "untile_close m1 m2 y =
     (if m1 = 0 \<or> m2 = 0 \<or> nb y mod (m1 * m2) \<noteq> 0 then Inl EinopsError
      else Inr \<lparr>nb = nb y div (m1 * m2), nc = nc y, nh = m1 * nh y, nw = m2 * nw y,
                el = (\<lambda>b c i j.
                  el y ((b * m1 + i div nh y) * m2 + j div nw y) c (i mod nh y) (j mod nw y))\<rparr>)"

section \<open>Pointwise projections\<close>

text \<open>
  \<^verbatim>\<open>ConvNormAct\<close> is imported from \<^verbatim>\<open>emov2_basic_modules\<close>, outside the sources at
  hand. The attention modules build it with \<^verbatim>\<open>kernel_size=1\<close> and \<^verbatim>\<open>norm_layer='none'\<close>: a
  1x1 convolution with stride 1 followed by an activation. Such a layer maps the channel
  vector of each pixel on its own, whatever the weights, bias, grouping and activation
  are; it is taken here as a parameter: the number of input and output channels and the
  map \<open>pix\<close> from a pixel's input channels to its output channels. A tensor with another
  number of channels makes the convolution raise.
\<close>

record 'a pointwise =
  cin :: nat
  cout :: nat
  pix :: "'a list \<Rightarrow> 'a list"

definition apply_pw :: "'a pointwise \<Rightarrow> 'a tensor4 \<Rightarrow> py_error + 'a tensor4" where
  "apply_pw f x =
     (if nc x \<noteq> cin f then Inl RuntimeError
      else Inr \<lparr>nb = nb x, nc = cout f, nh = nh x, nw = nw x,
                el = (\<lambda>b c i j. pix f (map (\<lambda>c'. el x b c' i j) [0..<nc x]) ! c)\<rparr>)"

section \<open>Multi-head attention on window batches\<close>

text \<open>Sum of a list, from the left, starting at zero.\<close>

definition sum_fl :: "'a::{zero,plus} list \<Rightarrow> 'a" where
  "sum_fl xs = foldl (+) 0 xs"

text \<open>
  \<^verbatim>\<open>rearrange(qk, 'b (qk heads dim_head) h w -> qk b heads (h w) dim_head', qk=2,
  heads=self.num_head, dim_head=self.dim_head)\<close> followed by \<^verbatim>\<open>q, k = qk[0], qk[1]\<close>:
  all three factors of the channel axis are given, so their product must be its length.
\<close>

definition rearrange_qk ::
  "nat \<Rightarrow> nat \<Rightarrow> 'a tensor4 \<Rightarrow> py_error + ('a tensor4 \<times> 'a tensor4)" where
  "rearrange_qk heads dh t =
     (if nc t \<noteq> 2 * heads * dh then Inl EinopsError
      else Inr
        (\<lparr>nb = nb t, nc = heads, nh = nh t * nw t, nw = dh,
          el = (\<lambda>b hd s d. el t b ((0 * heads + hd) * dh + d) (s div nw t) (s mod nw t))\<rparr>,
         \<lparr>nb = nb t, nc = heads, nh = nh t * nw t, nw = dh,
          el = (\<lambda>b hd s d. el t b ((1 * heads + hd) * dh + d) (s div nw t) (s mod nw t))\<rparr>))"

text \<open>
  \<^verbatim>\<open>rearrange(v, 'b (heads dim_head) h w -> b heads (h w) dim_head', heads=self.num_head)\<close>:
  the head dimension is found by division.
\<close>

definition split_heads :: "nat \<Rightarrow> 'a tensor4 \<Rightarrow> py_error + 'a tensor4" where
  "split_heads heads t =
     (if heads = 0 \<or> nc t mod heads \<noteq> 0 then Inl EinopsError
      else Inr \<lparr>nb = nb t, nc = heads, nh = nh t * nw t, nw = nc t div heads,
                el = (\<lambda>b hd s d. el t b (hd * (nc t div heads) + d) (s div nw t) (s mod nw t))\<rparr>)"

text \<open>
  \<^verbatim>\<open>rearrange(x_spa, 'b heads (h w) dim_head -> b (heads dim_head) h w', heads=self.num_head,
  h=h, w=w)\<close>.
\<close>

definition merge_heads :: "nat \<Rightarrow> nat \<Rightarrow> nat \<Rightarrow> 'a tensor4 \<Rightarrow> py_error + 'a tensor4" where
  "merge_heads heads h w t =
     (if nc t \<noteq> heads \<or> nh t \<noteq> h * w then Inl EinopsError
      else Inr \<lparr>nb = nb t, nc = heads * nw t, nh = h, nw = w,
                el = (\<lambda>b c i j. el t b (c div nw t) (i * w + j) (c mod nw t))\<rparr>)"

text \<open>\<^verbatim>\<open>k.transpose(-2, -1)\<close>.\<close>

definition transpose_last :: "'a tensor4 \<Rightarrow> 'a tensor4" where
  "transpose_last t = \<lparr>nb = nb t, nc = nc t, nh = nw t, nw = nh t,
                        el = (\<lambda>b c i j. el t b c j i)\<rparr>"

text \<open>
  The batched matrix product \<^verbatim>\<open>a @ b\<close> of two rank-4 tensors with the same two leading
  axes; the inner lengths must agree.
\<close>

definition matmul ::
  "'a::{zero,plus,times} tensor4 \<Rightarrow> 'a tensor4 \<Rightarrow> py_error + 'a tensor4" where
  "matmul a b =
     (if nb a \<noteq> nb b \<or> nc a \<noteq> nc b \<or> nw a \<noteq> nh b then Inl RuntimeError
      else Inr \<lparr>nb = nb a, nc = nc a, nh = nh a, nw = nw b,
                el = (\<lambda>n c i j. sum_fl (map (\<lambda>t. el a n c i t * el b n c t j) [0..<nw a]))\<rparr>)"

text \<open>\<^verbatim>\<open>t * self.scale\<close>.\<close>

definition scale_t :: "'a::times tensor4 \<Rightarrow> 'a \<Rightarrow> 'a tensor4" where
  "scale_t t s = t\<lparr>el := (\<lambda>b c i j. el t b c i j * s)\<rparr>"

text \<open>
  \<^verbatim>\<open>t.softmax(dim=-1)\<close>: each row along the last axis is exponentiated and divided by
  the sum of the row's exponentials. The exponential \<open>ex\<close> is a parameter.
\<close>

definition softmax_last :: "('a \<Rightarrow> 'a) \<Rightarrow> 'a::{zero,plus,inverse} tensor4 \<Rightarrow> 'a tensor4" where
  "softmax_last ex t =
     t\<lparr>el := (\<lambda>b c i j. ex (el t b c i j) / sum_fl (map (\<lambda>j'. ex (el t b c i j')) [0..<nw t]))\<rparr>"

text \<open>
  The fields of the three attention modules, which share one constructor signature:
  \<^verbatim>\<open>
    self.dim_head = dim_head
    self.window_size = window_size
    self.num_head = dim_in // dim_head
    self.scale = self.dim_head ** -0.5
    self.attn_pre = attn_pre
    self.qk = ConvNormAct(dim_in, int(dim_in * 2), kernel_size=1, ...)
    self.v = ConvNormAct(dim_in, dim_mid, kernel_size=1, ...)
    self.attn_drop = nn.Dropout(attn_drop)
  \<close>
  Dropout is inactive (rate 0, the default, or evaluation mode) and is the identity.
\<close>

record 'a mhsa =
  dim_head :: nat
  window_size :: int
  num_head :: nat
  scale :: 'a
  attn_pre :: bool
  qk :: "'a pointwise"
  v :: "'a pointwise"
  ex :: "'a \<Rightarrow> 'a"

text \<open>
  \<^verbatim>\<open>
    attn_map = (q @ k.transpose(-2, -1)) * self.scale
    attn_map = attn_map.softmax(dim=-1)
    attn_map = self.attn_drop(attn_map)
  \<close>
\<close>

definition attn_map ::
  "'a::{zero,plus,times,inverse} mhsa \<Rightarrow> 'a tensor4 \<Rightarrow> 'a tensor4 \<Rightarrow> py_error + 'a tensor4" where
  "attn_map P q k =
     bindE (matmul q (transpose_last k)) (\<lambda>qkT.
       Inr (softmax_last (ex P) (scale_t qkT (scale P))))"

text \<open>
  \<^verbatim>\<open>
    v = rearrange(v, 'b (heads dim_head) h w -> b heads (h w) dim_head', heads=self.num_head)
    x_spa = attn_map @ v
    x_spa = rearrange(x_spa, 'b heads (h w) dim_head -> b (heads dim_head) h w',
                      heads=self.num_head, h=h, w=w)
  \<close>
\<close>

definition attend ::
  "'a::{zero,plus,times,inverse} mhsa \<Rightarrow> 'a tensor4 \<Rightarrow> 'a tensor4 \<Rightarrow> nat \<Rightarrow> nat
     \<Rightarrow> py_error + 'a tensor4" where
  "attend P am vt h w =
     bindE (split_heads (num_head P) vt) (\<lambda>vh.
     bindE (matmul am vh) (\<lambda>x_spa.
       merge_heads (num_head P) h w x_spa))"

text \<open>
  The block \<^verbatim>\<open># attention\<close> of \<^verbatim>\<open>EW_MHSA_Remote.forward\<close> (lines 70 to 88), which
  \<^verbatim>\<open>EW_MHSA_Close.forward\<close> repeats word for word (lines 130 to 149), on a window batch.
\<close>

definition attention ::
  "'a::{zero,plus,times,inverse} mhsa \<Rightarrow> 'a tensor4 \<Rightarrow> py_error + 'a tensor4" where
  "attention P x =
     bindE (apply_pw (qk P) x) (\<lambda>qkx.
     bindE (rearrange_qk (num_head P) (dim_head P) qkx) (\<lambda>(q, k).
     bindE (attn_map P q k) (\<lambda>am.
       if attn_pre P then
         bindE (attend P am x (nh x) (nw x)) (\<lambda>x_spa. apply_pw (v P) x_spa)
       else
         bindE (apply_pw (v P) x) (\<lambda>vx. attend P am vx (nh x) (nw x)))))"

section \<open>The three attention variants\<close>

definition unpad :: "geometry \<Rightarrow> nat \<Rightarrow> nat \<Rightarrow> 'a tensor4 \<Rightarrow> 'a tensor4" where
  \<comment> \<open>\<^verbatim>\<open>if pad_r > 0 or pad_b > 0: x = x[:, :, :H, :W]\<close>\<close>
  "unpad g H W x = (if pad_r g > 0 \<or> pad_b g > 0 then crop x H W else x)"

definition EW_MHSA_Remote_forward ::
  "'a::{zero,plus,times,inverse} mhsa \<Rightarrow> 'a tensor4 \<Rightarrow> py_error + 'a tensor4" where
  "EW_MHSA_Remote_forward P x =
     bindE (window_geometry (window_size P) (nh x) (nw x)) (\<lambda>g.
     bindE (tile_remote (n1 g) (n2 g) (pad x (pad_r g) (pad_b g))) (\<lambda>xt.
     bindE (attention P xt) (\<lambda>x_spa.
     bindE (untile_remote (n1 g) (n2 g) x_spa) (\<lambda>y.
       Inr (unpad g (nh x) (nw x) y)))))"

definition EW_MHSA_Close_forward ::
  "'a::{zero,plus,times,inverse} mhsa \<Rightarrow> 'a tensor4 \<Rightarrow> py_error + 'a tensor4" where
  "EW_MHSA_Close_forward P x =
     bindE (window_geometry (window_size P) (nh x) (nw x)) (\<lambda>g.
     bindE (tile_close (n1 g) (n2 g) (pad x (pad_r g) (pad_b g))) (\<lambda>xt.
     bindE (attention P xt) (\<lambda>x_spa.
     bindE (untile_close (n1 g) (n2 g) x_spa) (\<lambda>y.
       Inr (unpad g (nh x) (nw x) y)))))"

text \<open>
  \<^verbatim>\<open>EW_MHSA_Hybrid.forward\<close>, statement by statement. With \<^verbatim>\<open>attn_pre\<close> both branches are
  merged by the remote pattern \<^verbatim>\<open>'(b n1 n2) c h1 w1 -> b c (h1 n1) (w1 n2)'\<close> (lines 212
  and 217); without it the close branch is merged by the close pattern (line 234).
\<close>

definition EW_MHSA_Hybrid_forward ::
  "'a::{zero,plus,times,inverse} mhsa \<Rightarrow> 'a tensor4 \<Rightarrow> py_error + 'a tensor4" where
  "EW_MHSA_Hybrid_forward P x =
     bindE (window_geometry (window_size P) (nh x) (nw x)) (\<lambda>g.
     let xp = pad x (pad_r g) (pad_b g) in
     bindE (tile_remote (n1 g) (n2 g) xp) (\<lambda>x_remote.
     bindE (tile_close (n1 g) (n2 g) xp) (\<lambda>x_close.
     bindE (apply_pw (qk P) xp) (\<lambda>qkx.
     bindE (tile_remote (n1 g) (n2 g) qkx) (\<lambda>qk_remote.
     bindE (tile_close (n1 g) (n2 g) qkx) (\<lambda>qk_close.
     let h = nh x_remote; w = nw x_remote in
     bindE (rearrange_qk (num_head P) (dim_head P) qk_remote) (\<lambda>(q_remote, k_remote).
     bindE (rearrange_qk (num_head P) (dim_head P) qk_close) (\<lambda>(q_close, k_close).
     bindE (attn_map P q_remote k_remote) (\<lambda>attn_map_remote.
     bindE (attn_map P q_close k_close) (\<lambda>attn_map_close.
     bindE
       (if attn_pre P then
          bindE (attend P attn_map_remote x_remote h w) (\<lambda>s_remote.
          bindE (untile_remote (n1 g) (n2 g) s_remote) (\<lambda>x_spa_remote.
          bindE (attend P attn_map_close x_close h w) (\<lambda>s_close.
          bindE (untile_remote (n1 g) (n2 g) s_close) (\<lambda>x_spa_close.
            apply_pw (v P) (add_t x_spa_remote x_spa_close)))))
        else
          bindE (apply_pw (v P) xp) (\<lambda>vx.
          bindE (tile_remote (n1 g) (n2 g) vx) (\<lambda>v_remote.
          bindE (tile_close (n1 g) (n2 g) vx) (\<lambda>v_close.
          bindE (attend P attn_map_remote v_remote h w) (\<lambda>s_remote.
          bindE (untile_remote (n1 g) (n2 g) s_remote) (\<lambda>x_spa_remote.
          bindE (attend P attn_map_close v_close h w) (\<lambda>s_close.
          bindE (untile_close (n1 g) (n2 g) s_close) (\<lambda>x_spa_close.
            Inr (add_t x_spa_remote x_spa_close)))))))))
       (\<lambda>x_spa. Inr (unpad g (nh x) (nw x) x_spa))))))))))))"

text \<open>
  \<^verbatim>\<open>remote(x) + close(x)\<close>: the left operand is evaluated first, and an exception of
  either operand is the exception of the sum.
\<close>

definition add_result ::
  "py_error + 'a::plus tensor4 \<Rightarrow> py_error + 'a tensor4 \<Rightarrow> py_error + 'a tensor4" where
  "add_result r1 r2 = bindE r1 (\<lambda>y1. bindE r2 (\<lambda>y2. Inr (add_t y1 y2)))"

section \<open>Shapes through the layers\<close>

text \<open>
  The end-to-end claims are about shapes only, and the weights of the convolutions and
  normalisations are outside the sources at hand, so the blocks and the model are
  followed on shapes \<open>(B, C, H, W)\<close>.
\<close>

text \<open>
  Modelled from the spec: \<^verbatim>\<open>ConvNormAct\<close> (module \<^verbatim>\<open>emov2_basic_modules\<close>) is missing. The
  spec gives its contract: it "produces an output tensor with \<^verbatim>\<open>dim_out\<close> channels", a
  shape mismatch is fatal, and height and width "shrink by exactly 2x" at a stride-2
  layer and are kept at stride 1. For a size the stride does not divide the spec gives
  no value; the quotient is rounded down here.
\<close>

definition ConvNormAct_shape :: "nat \<Rightarrow> nat \<Rightarrow> nat \<Rightarrow> shape4 \<Rightarrow> py_error + shape4" where
  "ConvNormAct_shape d_in d_out strd s =
     (case s of (B, C, H, W) \<Rightarrow>
        if C \<noteq> d_in \<or> strd = 0 then Inl RuntimeError
        else Inr (B, d_out, H div strd, W div strd))"

text \<open>
  Modelled from the spec: the layer \<^verbatim>\<open>get_norm(norm_layer)(dim)\<close> (missing as well)
  normalises a tensor of \<open>dim\<close> channels and keeps its shape.
\<close>

definition norm_shape :: "nat \<Rightarrow> shape4 \<Rightarrow> py_error + shape4" where
  "norm_shape d s = (case s of (B, C, H, W) \<Rightarrow> if C \<noteq> d then Inl RuntimeError else Inr s)"

text \<open>The sum of two tensors of one shape. (Broadcasting of unequal shapes never arises.)\<close>

definition add_shape :: "shape4 \<Rightarrow> shape4 \<Rightarrow> py_error + shape4" where
  "add_shape s t = (if s = t then Inr s else Inl RuntimeError)"

text \<open>The shape-relevant fields of an attention module, as its constructor sets them.\<close>

record mhsa_cfg =
  a_dim_in :: nat
  a_dim_mid :: nat
  a_dim_head :: nat
  a_window_size :: int
  a_num_head :: nat
  a_attn_pre :: bool

text \<open>
  \<^verbatim>\<open>self.num_head = dim_in // dim_head\<close> raises ZeroDivisionError for a zero head
  dimension.
\<close>

definition EW_MHSA_init ::
  "nat \<Rightarrow> nat \<Rightarrow> nat \<Rightarrow> int \<Rightarrow> bool \<Rightarrow> py_error + mhsa_cfg" where
  "EW_MHSA_init d_in d_mid d_head ws pre =
     (if d_head = 0 then Inl ZeroDivisionError
      else Inr \<lparr>a_dim_in = d_in, a_dim_mid = d_mid, a_dim_head = d_head, a_window_size = ws,
                a_num_head = d_in div d_head, a_attn_pre = pre\<rparr>)"

text \<open>
  The shape of the result of each of the three attention variants, with the exceptions
  in the order in which \<^verbatim>\<open>forward\<close> meets them.
\<close>

definition mhsa_shape :: "mhsa_cfg \<Rightarrow> shape4 \<Rightarrow> py_error + shape4" where
  "mhsa_shape A s =
     (case s of (B, C, H, W) \<Rightarrow>
        bindE (window_geometry (a_window_size A) H W) (\<lambda>g.
          if n1 g = 0 \<or> n2 g = 0 then Inl EinopsError
          else if C \<noteq> a_dim_in A then Inl RuntimeError
          else if 2 * a_dim_in A \<noteq> 2 * a_num_head A * a_dim_head A then Inl EinopsError
          else if a_num_head A = 0 then Inl EinopsError
          else if a_attn_pre A then
            (if C mod a_num_head A \<noteq> 0 then Inl EinopsError else Inr (B, a_dim_mid A, H, W))
          else
            (if a_dim_mid A mod a_num_head A \<noteq> 0 then Inl EinopsError
             else Inr (B, a_dim_mid A, H, W))))"

section \<open>The inverted residual block\<close>

datatype eop =
    Conv nat nat
  | EW_MHSA_Remote mhsa_cfg
  | EW_MHSA_Close mhsa_cfg
  | EW_MHSA_Hybrid mhsa_cfg

text \<open>The arguments of \<^verbatim>\<open>iiRMB.__init__\<close> that decide shapes and structure.\<close>

record iiRMB_args =
  arg_dim_in :: nat
  arg_dim_out :: nat
  arg_norm_in :: bool
  arg_has_skip :: bool
  arg_exp_ratio :: rat
  arg_dw_ks :: int
  arg_stride :: nat
  arg_dim_head :: nat
  arg_window_size :: int
  arg_hybrid_eops :: "int list"
  arg_attn_pre :: bool

text \<open>The block that the constructor builds.\<close>

record iiRMB =
  norm_in :: bool
  dim_in :: nat
  dim_mid :: nat
  dim_out :: nat
  has_skip :: bool
  hybrid_eops :: "int list"
  eops :: "eop list"
  dw_ks :: int
  stride :: nat

text \<open>
  The loop of the constructor over \<^verbatim>\<open>self.hybrid_eops\<close>:
  \<^verbatim>\<open>
    for eop_idx in self.hybrid_eops:
        if eop_idx == 0:   eop = Conv(dim_in, dim_mid, ...)
        elif eop_idx == 1: eop = EW_MHSA_Remote(dim_in, dim_mid, ...)
        elif eop_idx == 2: eop = EW_MHSA_Close(dim_in, dim_mid, ...)
        elif eop_idx == 3: eop = EW_MHSA_Hybrid(dim_in, dim_mid, ...)
        else:              eop = None
        if eop:
            eops.append(eop)
  \<close>
\<close>

fun build_eops ::
  "nat \<Rightarrow> nat \<Rightarrow> nat \<Rightarrow> int \<Rightarrow> bool \<Rightarrow> int list \<Rightarrow> py_error + eop list" where
  "build_eops d_in d_mid d_head ws pre [] = Inr []"
| "build_eops d_in d_mid d_head ws pre (eop_idx # rest) =
     bindE
       (if eop_idx = 0 then Inr (Some (Conv d_in d_mid))
        else if eop_idx = 1 then
          bindE (EW_MHSA_init d_in d_mid d_head ws pre) (\<lambda>A. Inr (Some (EW_MHSA_Remote A)))
        else if eop_idx = 2 then
          bindE (EW_MHSA_init d_in d_mid d_head ws pre) (\<lambda>A. Inr (Some (EW_MHSA_Close A)))
        else if eop_idx = 3 then
          bindE (EW_MHSA_init d_in d_mid d_head ws pre) (\<lambda>A. Inr (Some (EW_MHSA_Hybrid A)))
        else Inr None)
       (\<lambda>eop. bindE (build_eops d_in d_mid d_head ws pre rest) (\<lambda>more.
          Inr (case eop of None \<Rightarrow> more | Some e \<Rightarrow> e # more)))"

text \<open>
  \<^verbatim>\<open>iiRMB.__init__\<close>. \<^verbatim>\<open>dim_mid = int(dim_in * exp_ratio)\<close> is taken for a ratio that is
  not negative and is an exact fraction (the configured ratios are whole numbers).
\<close>

definition iiRMB_init :: "iiRMB_args \<Rightarrow> py_error + iiRMB" where
  "iiRMB_init a =
     (let d_mid = nat \<lfloor>of_nat (arg_dim_in a) * arg_exp_ratio a\<rfloor> in
      bindE (build_eops (arg_dim_in a) d_mid (arg_dim_head a) (arg_window_size a)
               (arg_attn_pre a) (arg_hybrid_eops a)) (\<lambda>es.
        Inr \<lparr>norm_in = arg_norm_in a, dim_in = arg_dim_in a, dim_mid = d_mid,
             dim_out = arg_dim_out a,
             has_skip = ((arg_dim_in a = arg_dim_out a \<and> arg_stride a = 1) \<and> arg_has_skip a),
             hybrid_eops = arg_hybrid_eops a, eops = es, dw_ks = arg_dw_ks a,
             stride = arg_stride a\<rparr>))"

fun eop_shape :: "eop \<Rightarrow> shape4 \<Rightarrow> py_error + shape4" where
  "eop_shape (Conv d_in d_mid) s = ConvNormAct_shape d_in d_mid 1 s"
| "eop_shape (EW_MHSA_Remote A) s = mhsa_shape A s"
| "eop_shape (EW_MHSA_Close A) s = mhsa_shape A s"
| "eop_shape (EW_MHSA_Hybrid A) s = mhsa_shape A s"

text \<open>\<^verbatim>\<open>for eop in self.eops: xs.append(eop(x))\<close>\<close>

fun run_eops :: "eop list \<Rightarrow> shape4 \<Rightarrow> py_error + shape4 list" where
  "run_eops [] s = Inr []"
| "run_eops (e # es) s =
     bindE (eop_shape e s) (\<lambda>t. bindE (run_eops es s) (\<lambda>ts. Inr (t # ts)))"

text \<open>\<^verbatim>\<open>sum(xs)\<close> of at least two tensors.\<close>

fun sum_shapes :: "shape4 \<Rightarrow> shape4 list \<Rightarrow> py_error + shape4" where
  "sum_shapes acc [] = Inr acc"
| "sum_shapes acc (t # ts) = bindE (add_shape acc t) (\<lambda>acc'. sum_shapes acc' ts)"

text \<open>
  \<^verbatim>\<open>iiRMB.forward\<close> on shapes. \<^verbatim>\<open>xs[0]\<close> raises IndexError when no operator was built.
  Dropout, layer scale and stochastic depth keep the shape.
\<close>

definition iiRMB_forward :: "iiRMB \<Rightarrow> shape4 \<Rightarrow> py_error + shape4" where
  "iiRMB_forward blk shortcut =
     bindE (if norm_in blk then norm_shape (dim_in blk) shortcut else Inr shortcut) (\<lambda>x.
     bindE (run_eops (eops blk) x) (\<lambda>xs.
     bindE (if length (eops blk) > 1
            then (case xs of [] \<Rightarrow> Inl IndexError | t # ts \<Rightarrow> sum_shapes t ts)
            else (case xs of [] \<Rightarrow> Inl IndexError | t # ts \<Rightarrow> Inr t)) (\<lambda>x.
     bindE (if dw_ks blk > 0 then ConvNormAct_shape (dim_mid blk) (dim_mid blk) (stride blk) x
            else Inr x) (\<lambda>x_l.
     bindE (if has_skip blk then add_shape x x_l else Inr x_l) (\<lambda>x.
     bindE (ConvNormAct_shape (dim_mid blk) (dim_out blk) 1 x) (\<lambda>x.
       if has_skip blk then add_shape shortcut x else Inr x))))))"

section \<open>The backbone\<close>

text \<open>Python's \<^verbatim>\<open>xs[i]\<close> for an index that is not negative.\<close>

definition idx :: "'a list \<Rightarrow> nat \<Rightarrow> py_error + 'a" where
  "idx xs i = (if i < length xs then Inr (xs ! i) else Inl IndexError)"

text \<open>Python's \<^verbatim>\<open>xs[i]\<close> for any integer: a negative index counts from the end.\<close>

definition py_index :: "'a list \<Rightarrow> int \<Rightarrow> py_error + 'a" where
  "py_index xs i =
     (if 0 \<le> i then idx xs (nat i)
      else if nat (- i) \<le> length xs then Inr (xs ! (length xs - nat (- i)))
      else Inl IndexError)"

text \<open>The arguments of \<^verbatim>\<open>EMO2.__init__\<close> that decide shapes and structure.\<close>

record EMO2_args =
  cfg_dim_in :: nat
  num_classes :: int
  img_size :: nat
  depths :: "nat list"
  embed_dims :: "nat list"
  exp_ratios :: "rat list"
  norm_layers :: "string list"
  act_layers :: "string list"
  dw_kss :: "int list"
  dim_heads :: "nat list"
  window_sizes :: "int list"
  hybrid_eopss :: "int list list"
  conv_kss :: "nat list"
  conv_groupss :: "nat list"
  cfg_attn_pre :: bool
  sync_bn :: bool
  out_indices :: "int list"
  cfg_frozen_stages :: int

text \<open>The signature's default values, with the \<^verbatim>\<open>out_indices\<close> given by the caller.\<close>

definition default_args :: "int list \<Rightarrow> EMO2_args" where
  "default_args outs =
     \<lparr>cfg_dim_in = 3, num_classes = 1000, img_size = 224,
      depths = [1, 2, 4, 2],
      embed_dims = [64, 128, 256, 512],
      exp_ratios = [4, 4, 4, 4],
      norm_layers = [''bn_2d'', ''bn_2d'', ''ln_2d'', ''ln_2d''],
      act_layers = [''silu'', ''silu'', ''gelu'', ''gelu''],
      dw_kss = [3, 3, 5, 5],
      dim_heads = [32, 32, 32, 32],
      window_sizes = [7, 7, 7, 7],
      hybrid_eopss = [[0], [0], [1], [1]],
      conv_kss = [1, 1, 1, 1],
      conv_groupss = [1, 1, 1, 1],
      cfg_attn_pre = False, sync_bn = False, out_indices = outs, cfg_frozen_stages = - 1\<rparr>"

text \<open>
  \<^verbatim>\<open>get_stem(dim_in, dim_mid)\<close>: three \<^verbatim>\<open>ConvNormAct\<close> layers, given here by input
  channels, output channels and stride.
\<close>

definition get_stem :: "nat \<Rightarrow> nat \<Rightarrow> (nat \<times> nat \<times> nat) list" where
  "get_stem d_in d_mid = [(d_in, d_mid, 2), (d_mid, d_mid, 1), (d_mid, d_mid, 1)]"

text \<open>
  The arguments that the body of the inner loop passes to \<^verbatim>\<open>iiRMB\<close> for block \<open>j\<close> of
  stage \<open>i\<close>; every subscript can raise IndexError.
\<close>

definition block_args :: "EMO2_args \<Rightarrow> nat \<Rightarrow> nat \<Rightarrow> nat \<Rightarrow> py_error + iiRMB_args" where
  "block_args a i emb_dim_pre j =
     bindE
       (if j = 0 then
          bindE (idx (exp_ratios a) i) (\<lambda>r.
          bindE (idx (dw_kss a) i) (\<lambda>k.
            Inr (2, False, [0], r * 2, (if k > 0 then k else 5))))
        else
          bindE (idx (hybrid_eopss a) i) (\<lambda>ops.
          bindE (idx (exp_ratios a) i) (\<lambda>r.
          bindE (idx (conv_kss a) i) (\<lambda>ck.
          bindE (idx (conv_groupss a) i) (\<lambda>cg.
          bindE (idx (dw_kss a) i) (\<lambda>k.
            Inr (1, True, ops, r, k)))))))
       (\<lambda>(strd, skip, ops, ratio, k).
          bindE (idx (embed_dims a) i) (\<lambda>d_out.
          bindE (idx (norm_layers a) i) (\<lambda>nl.
          bindE (idx (act_layers a) i) (\<lambda>al.
          bindE (idx (dim_heads a) i) (\<lambda>dh.
          bindE (idx (window_sizes a) i) (\<lambda>ws.
            Inr \<lparr>arg_dim_in = emb_dim_pre, arg_dim_out = d_out, arg_norm_in = True,
                 arg_has_skip = skip, arg_exp_ratio = ratio, arg_dw_ks = k, arg_stride = strd,
                 arg_dim_head = dh, arg_window_size = ws, arg_hybrid_eops = ops,
                 arg_attn_pre = cfg_attn_pre a\<rparr>))))))"

text \<open>
  The inner loop \<^verbatim>\<open>for j in range(depths[i])\<close>, from block \<open>j\<close> with \<open>k\<close> blocks to go.
  The result holds the blocks and the value of \<^verbatim>\<open>emb_dim_pre\<close> after the loop.
\<close>

fun build_blocks ::
  "EMO2_args \<Rightarrow> nat \<Rightarrow> nat \<Rightarrow> nat \<Rightarrow> nat \<Rightarrow> py_error + (iiRMB list \<times> nat)" where
  "build_blocks a i emb_dim_pre j 0 = Inr ([], emb_dim_pre)"
| "build_blocks a i emb_dim_pre j (Suc k) =
     bindE (block_args a i emb_dim_pre j) (\<lambda>args.
     bindE (iiRMB_init args) (\<lambda>blk.
     bindE (build_blocks a i (arg_dim_out args) (Suc j) k) (\<lambda>(rest, d).
       Inr (blk # rest, d))))"

text \<open>The outer loop \<^verbatim>\<open>for i in range(len(depths))\<close>, from stage \<open>i\<close> with \<open>k\<close> stages to go.\<close>

fun build_stages ::
  "EMO2_args \<Rightarrow> nat \<Rightarrow> nat \<Rightarrow> nat \<Rightarrow> py_error + iiRMB list list" where
  "build_stages a i emb_dim_pre 0 = Inr []"
| "build_stages a i emb_dim_pre (Suc k) =
     bindE (idx (depths a) i) (\<lambda>n.
     bindE (build_blocks a i emb_dim_pre 0 n) (\<lambda>(layers, d).
     bindE (build_stages a (Suc i) d k) (\<lambda>rest.
       Inr (layers # rest))))"

text \<open>
  The model: the stem \<^verbatim>\<open>stage0\<close> and the attributes \<^verbatim>\<open>stage1\<close>, \<^verbatim>\<open>stage2\<close>, ... in
  \<open>stages\<close>, one per entry of \<^verbatim>\<open>depths\<close>.
\<close>

record EMO2 =
  stage0 :: "(nat \<times> nat \<times> nat) list"
  stages :: "iiRMB list list"
  m_out_indices :: "int list"

text \<open>
  \<^verbatim>\<open>EMO2.__init__\<close> without a checkpoint (\<^verbatim>\<open>pretrained=None\<close>, for which
  \<^verbatim>\<open>_init_weights\<close> changes no shape). \<^verbatim>\<open>_sync_bn\<close> reads \<^verbatim>\<open>stage1\<close> to \<^verbatim>\<open>stage4\<close> and
  \<^verbatim>\<open>_freeze_stages\<close> reads \<^verbatim>\<open>stage0\<close> to \<^verbatim>\<open>stage{frozen_stages}\<close>; a missing attribute
  raises AttributeError.
\<close>

definition EMO2_init :: "EMO2_args \<Rightarrow> py_error + EMO2" where
  "EMO2_init a =
     (if \<not> num_classes a > 0 then Inl AssertionError
      else
        bindE (idx (embed_dims a) 0) (\<lambda>d0.
        let emb_dim_pre = d0 div 2 in
        bindE (build_stages a 0 emb_dim_pre (length (depths a))) (\<lambda>sts.
          if sync_bn a \<and> length sts < 4 then Inl AttributeError
          else if cfg_frozen_stages a > int (length sts) then Inl AttributeError
          else Inr \<lparr>stage0 = get_stem (cfg_dim_in a) emb_dim_pre, stages = sts,
                    m_out_indices = out_indices a\<rparr>)))"

text \<open>\<^verbatim>\<open>for blk in self.stage0: x = blk(x)\<close>\<close>

fun run_stem :: "(nat \<times> nat \<times> nat) list \<Rightarrow> shape4 \<Rightarrow> py_error + shape4" where
  "run_stem [] s = Inr s"
| "run_stem ((d_in, d_out, strd) # rest) s =
     bindE (ConvNormAct_shape d_in d_out strd s) (run_stem rest)"

text \<open>\<^verbatim>\<open>for blk in self.stageN: x = blk(x)\<close>\<close>

fun run_blocks :: "iiRMB list \<Rightarrow> shape4 \<Rightarrow> py_error + shape4" where
  "run_blocks [] s = Inr s"
| "run_blocks (blk # rest) s = bindE (iiRMB_forward blk s) (run_blocks rest)"

text \<open>The attribute \<^verbatim>\<open>self.stageN\<close> for \<open>N \<ge> 1\<close>.\<close>

definition get_stage :: "EMO2 \<Rightarrow> nat \<Rightarrow> py_error + iiRMB list" where
  "get_stage M N = (if N - 1 < length (stages M) then Inr (stages M ! (N - 1)) else Inl AttributeError)"

fun select_out :: "shape4 list \<Rightarrow> int list \<Rightarrow> py_error + shape4 list" where
  "select_out out [] = Inr []"
| "select_out out (i # rest) =
     bindE (py_index out i) (\<lambda>t. bindE (select_out out rest) (\<lambda>ts. Inr (t # ts)))"

text \<open>
  \<^verbatim>\<open>EMO2.forward\<close> on shapes, in two steps: the list \<^verbatim>\<open>out\<close> of the five feature maps,
  then \<^verbatim>\<open>tuple([out[i] for i in self.out_indices])\<close>.
\<close>

definition EMO2_features :: "EMO2 \<Rightarrow> shape4 \<Rightarrow> py_error + shape4 list" where
  "EMO2_features M x =
     bindE (run_stem (stage0 M) x) (\<lambda>x0.
     bindE (get_stage M 1) (\<lambda>st1. bindE (run_blocks st1 x0) (\<lambda>x1.
     bindE (get_stage M 2) (\<lambda>st2. bindE (run_blocks st2 x1) (\<lambda>x2.
     bindE (get_stage M 3) (\<lambda>st3. bindE (run_blocks st3 x2) (\<lambda>x3.
     bindE (get_stage M 4) (\<lambda>st4. bindE (run_blocks st4 x3) (\<lambda>x4.
       Inr [x0, x1, x2, x3, x4])))))))))"

definition EMO2_forward :: "EMO2 \<Rightarrow> shape4 \<Rightarrow> py_error + shape4 list" where
  "EMO2_forward M x = bindE (EMO2_features M x) (\<lambda>out. select_out out (m_out_indices M))"

section \<open>Loading a checkpoint\<close>

text \<open>
  A state dict maps parameter names to tensors, of which the shape and the flat contents
  are kept. Dicts are ordered, so they are lists of pairs with distinct keys.
\<close>

record 'a param =
  p_shape :: "nat list"
  p_data :: "'a list"

type_synonym 'a state_dict = "(string \<times> 'a param) list"

text \<open>
  \<^verbatim>\<open>
    for k, v in state_dict.items():
        if k in self_state_dict.keys():
            self_state_dict.update({k: v})
  \<close>
\<close>

fun update_matching :: "'a state_dict \<Rightarrow> 'a state_dict \<Rightarrow> 'a state_dict" where
  "update_matching [] self_state_dict = self_state_dict"
| "update_matching ((k, t) # rest) self_state_dict =
     update_matching rest
       (if k \<in> set (map fst self_state_dict) then AList.update k t self_state_dict
        else self_state_dict)"

text \<open>
  \<^verbatim>\<open>Module.load_state_dict(state_dict, strict=True)\<close> is PyTorch's. For each parameter of
  the module, in order, it looks the name up in the given dict. A one-dimensional entry
  for a zero-dimensional parameter is replaced by its element 0 (a rule kept for old
  checkpoints; on an empty entry the subscript raises IndexError). Then an entry whose
  shape is not the parameter's is recorded as a size mismatch and the parameter is left
  alone; otherwise the entry is copied into the parameter. With \<^verbatim>\<open>strict\<close>, missing and
  unexpected names are recorded as well. Any recorded message makes the call raise
  RuntimeError at its end.
\<close>

definition legacy_scalar :: "'a param \<Rightarrow> 'a param \<Rightarrow> py_error + 'a param" where
  "legacy_scalar p inp =
     (if length (p_shape p) = 0 \<and> length (p_shape inp) = 1 then
        (case p_data inp of [] \<Rightarrow> Inl IndexError
         | d # _ \<Rightarrow> Inr \<lparr>p_shape = [], p_data = [d]\<rparr>)
      else Inr inp)"

fun load_params ::
  "'a state_dict \<Rightarrow> 'a state_dict \<Rightarrow> py_error + ('a state_dict \<times> bool)" where
  "load_params [] sd = Inr ([], False)"
| "load_params ((name, p) # rest) sd =
     (case map_of sd name of
        None \<Rightarrow> bindE (load_params rest sd) (\<lambda>(ps, bad). Inr ((name, p) # ps, True))
      | Some inp \<Rightarrow>
          bindE (legacy_scalar p inp) (\<lambda>inp'.
            if p_shape inp' \<noteq> p_shape p
            then bindE (load_params rest sd) (\<lambda>(ps, bad). Inr ((name, p) # ps, True))
            else bindE (load_params rest sd) (\<lambda>(ps, bad). Inr ((name, inp') # ps, bad))))"

definition load_state_dict :: "'a state_dict \<Rightarrow> 'a state_dict \<Rightarrow> py_error + 'a state_dict" where
  "load_state_dict own sd =
     bindE (load_params own sd) (\<lambda>(ps, bad).
       if bad \<or> \<not> list_all (\<lambda>k. k \<in> set (map fst own)) (map fst sd) then Inl RuntimeError
       else Inr ps)"

text \<open>
  \<^verbatim>\<open>EMO2._init_weights\<close>. The first argument is \<^verbatim>\<open>None\<close> or the dict that
  \<^verbatim>\<open>torch.load(self.pretrained)\<close> returned, the second the parameters of the model, the
  result the parameters afterwards. Without a checkpoint the loop runs over
  \<^verbatim>\<open>self.parameters()\<close>, none of which is an \<^verbatim>\<open>nn.Linear\<close> or \<^verbatim>\<open>nn.LayerNorm\<close> module, and
  changes nothing.
\<close>

definition init_weights :: "'a state_dict option \<Rightarrow> 'a state_dict \<Rightarrow> py_error + 'a state_dict" where
  "init_weights pretrained own =
     (case pretrained of
        None \<Rightarrow> Inr own
      | Some state_dict \<Rightarrow> load_state_dict own (update_matching state_dict own))"

text \<open>
  What the amended claim calls a shape that fits: the same shape, or the old-checkpoint
  case of a non-empty one-dimensional entry for a zero-dimensional parameter.
\<close>

definition fits :: "'a param \<Rightarrow> 'a param \<Rightarrow> bool" where
  "fits p inp =
     (if length (p_shape p) = 0 \<and> length (p_shape inp) = 1 then p_data inp \<noteq> []
      else p_shape inp = p_shape p)"

definition loaded :: "'a param \<Rightarrow> 'a param \<Rightarrow> 'a param" where
  "loaded p inp =
     (if length (p_shape p) = 0 \<and> length (p_shape inp) = 1
      then \<lparr>p_shape = [], p_data = [hd (p_data inp)]\<rparr> else inp)"

text \<open>
  An entry of the model fits the checkpoint when the checkpoint has no entry of its name
  or one whose shape fits; \<open>entry_loaded\<close> is the entry after a load that succeeds.
\<close>

definition entry_ok :: "'a state_dict \<Rightarrow> string \<times> 'a param \<Rightarrow> bool" where
  "entry_ok ckpt e = (case map_of ckpt (fst e) of None \<Rightarrow> True | Some t \<Rightarrow> fits (snd e) t)"

definition entry_loaded :: "'a state_dict \<Rightarrow> string \<times> 'a param \<Rightarrow> string \<times> 'a param" where
  "entry_loaded ckpt e =
     (case map_of ckpt (fst e) of None \<Rightarrow> e | Some t \<Rightarrow> (fst e, loaded (snd e) t))"

section \<open>Freezing stages and the training mode\<close>

text \<open>
  A module with its \<^verbatim>\<open>training\<close> flag and the \<^verbatim>\<open>requires_grad\<close> flags of its own
  parameters. \<open>BatchNorm\<close> are the instances of \<^verbatim>\<open>_BatchNorm\<close>, \<open>OtherNorm\<close> the other
  normalisation layers.
\<close>

datatype layer_kind = BatchNorm | OtherNorm | Plain

record layer =
  kind :: layer_kind
  training :: bool
  requires_grad :: "bool list"

text \<open>
  The model for the purposes of \<^verbatim>\<open>train\<close>: entry \<open>i\<close> of \<open>stage_layers\<close> holds the
  modules of attribute \<^verbatim>\<open>stage{i}\<close> (all of \<^verbatim>\<open>m.modules()\<close>), \<open>self_training\<close> is the flag
  of the model itself.
\<close>

record model_state =
  self_training :: bool
  stage_layers :: "layer list list"
  frozen_stages :: int
  norm_eval :: bool

text \<open>
  \<^verbatim>\<open>
    m.eval()
    for param in m.parameters():
        param.requires_grad = False
  \<close>
\<close>

definition freeze_stage :: "layer list \<Rightarrow> layer list" where
  "freeze_stage m =
     map (\<lambda>l. l\<lparr>training := False, requires_grad := map (\<lambda>_. False) (requires_grad l)\<rparr>) m"

text \<open>
  The loop \<^verbatim>\<open>for i in range(0, self.frozen_stages + 1)\<close> from stage \<open>i\<close> with \<open>k\<close> stages to
  go; \<^verbatim>\<open>getattr(self, f'stage{i}')\<close> raises AttributeError for a stage that is not there.
\<close>

fun freeze_loop :: "nat \<Rightarrow> nat \<Rightarrow> layer list list \<Rightarrow> py_error + layer list list" where
  "freeze_loop i 0 sts = Inr sts"
| "freeze_loop i (Suc k) sts =
     (if i < length sts then freeze_loop (Suc i) k (sts[i := freeze_stage (sts ! i)])
      else Inl AttributeError)"

definition freeze_stages :: "model_state \<Rightarrow> py_error + model_state" where
  "freeze_stages S =
     bindE (freeze_loop 0 (nat (frozen_stages S + 1)) (stage_layers S)) (\<lambda>sts.
       Inr (S\<lparr>stage_layers := sts\<rparr>))"

text \<open>
  \<^verbatim>\<open>
    def train(self, mode=True):
        super(EMO2, self).train(mode)
        self._freeze_stages()
        if mode and self.norm_eval:
            for m in self.modules():
                if isinstance(m, _BatchNorm):
                    m.eval()
  \<close>
  \<^verbatim>\<open>nn.Module.train(mode)\<close> sets the flag of the module and of every submodule.
\<close>

definition train :: "bool \<Rightarrow> model_state \<Rightarrow> py_error + model_state" where
  "train mode S =
     (let S1 = S\<lparr>self_training := mode,
                 stage_layers := map (map (\<lambda>l. l\<lparr>training := mode\<rparr>)) (stage_layers S)\<rparr>
      in bindE (freeze_stages S1) (\<lambda>S2.
           if mode \<and> norm_eval S2 then
             Inr (S2\<lparr>stage_layers :=
                    map (map (\<lambda>l. if kind l = BatchNorm then l\<lparr>training := False\<rparr> else l))
                      (stage_layers S2)\<rparr>)
           else Inr S2))"

text \<open>Calls of \<^verbatim>\<open>train\<close> one after the other.\<close>

fun train_seq :: "bool list \<Rightarrow> model_state \<Rightarrow> py_error + model_state" where
  "train_seq [] S = Inr S"
| "train_seq (mode # rest) S = bindE (train mode S) (train_seq rest)"

text \<open>A stage is frozen: every module is in evaluation mode and no parameter is trainable.\<close>

definition stage_frozen :: "layer list \<Rightarrow> bool" where
  "stage_frozen m = list_all (\<lambda>l. \<not> training l \<and> list_all (\<lambda>g. \<not> g) (requires_grad l)) m"

text \<open>The stages \<open>0\<close> to \<open>frozen_stages\<close> exist and are frozen.\<close>

definition frozen_upto :: "model_state \<Rightarrow> bool" where
  "frozen_upto S =
     (nat (frozen_stages S + 1) \<le> length (stage_layers S) \<and>
      list_all stage_frozen (take (nat (frozen_stages S + 1)) (stage_layers S)))"

text \<open>The stages \<open>0\<close> to \<open>k\<close> exist and are frozen.\<close>

definition frozen_prefix :: "int \<Rightarrow> model_state \<Rightarrow> bool" where
  "frozen_prefix k S =
     (nat (k + 1) \<le> length (stage_layers S) \<and>
      list_all stage_frozen (take (nat (k + 1)) (stage_layers S)))"

section \<open>Concrete inputs\<close>

text \<open>Block arguments as the backbone passes them, with the fields that the claims vary.\<close>

definition skip_args :: "nat \<Rightarrow> nat \<Rightarrow> nat \<Rightarrow> bool \<Rightarrow> int list \<Rightarrow> iiRMB_args" where
  "skip_args d_in d_out strd flag tags =
     \<lparr>arg_dim_in = d_in, arg_dim_out = d_out, arg_norm_in = True, arg_has_skip = flag,
      arg_exp_ratio = 4, arg_dw_ks = 3, arg_stride = strd, arg_dim_head = 32,
      arg_window_size = 7, arg_hybrid_eops = tags, arg_attn_pre = False\<rparr>"

text \<open>The block that the constructor builds for the tags 0 and 7.\<close>

definition tagged_block :: iiRMB where
  "tagged_block = \<lparr>norm_in = True, dim_in = 64, dim_mid = 256, dim_out = 64, has_skip = True,
     hybrid_eops = [0, 7], eops = [Conv 64 256], dw_ks = 3, stride = 1\<rparr>"

text \<open>The five feature maps of the default model on an input of shape (1, 3, 224, 224).\<close>

definition default_feats :: "shape4 list" where
  "default_feats =
     [(1, 32, 112, 112), (1, 64, 56, 56), (1, 128, 28, 28), (1, 256, 14, 14), (1, 512, 7, 7)]"

text \<open>
  A small attention module over the rationals: two heads of dimension 1, the query/key
  projection doubling the channel vector, the value projection the identity, and
  \<open>1 + t\<^sup>2\<close> in place of the exponential.
\<close>

definition demo_mhsa :: "int \<Rightarrow> bool \<Rightarrow> rat mhsa" where
  "demo_mhsa ws pre =
     \<lparr>dim_head = 1, window_size = ws, num_head = 2, scale = 1, attn_pre = pre,
      qk = \<lparr>cin = 2, cout = 4, pix = (\<lambda>u. u @ u)\<rparr>,
      v = \<lparr>cin = 2, cout = 2, pix = (\<lambda>u. u)\<rparr>,
      ex = (\<lambda>t. 1 + t * t)\<rparr>"

text \<open>A tensor of shape (1, 2, H, W) with the element \<open>c + 2 i + j\<close> at \<open>(0, c, i, j)\<close>.\<close>

definition demo_tensor :: "nat \<Rightarrow> nat \<Rightarrow> rat tensor4" where
  "demo_tensor H W =
     \<lparr>nb = 1, nc = 2, nh = H, nw = W, el = (\<lambda>b c i j. of_nat (c + 2 * i + j))\<rparr>"

text \<open>
  A model of five stages, each with a plain layer and a batch normalisation, everything
  in training mode and trainable.
\<close>

definition demo_state :: "int \<Rightarrow> bool \<Rightarrow> model_state" where
  "demo_state k ne =
     \<lparr>self_training = True,
      stage_layers = replicate 5
        [\<lparr>kind = Plain, training = True, requires_grad = [True]\<rparr>,
         \<lparr>kind = BatchNorm, training = True, requires_grad = [True, True]\<rparr>],
      frozen_stages = k, norm_eval = ne\<rparr>"

text \<open>Parameters filled with one value, and a model of two parameters.\<close>

definition demo_param :: "nat list \<Rightarrow> rat \<Rightarrow> rat param" where
  "demo_param shp c = \<lparr>p_shape = shp, p_data = replicate (prod_list shp) c\<rparr>"

definition demo_own :: "rat state_dict" where
  "demo_own = [(''head.weight'', demo_param [2, 3] 0), (''stem.bias'', demo_param [4] 0)]"

section \<open>Properties: results and errors\<close>

lemma bindE_simps [simp]:
  "bindE (Inl e) f = Inl e"
  "bindE (Inr y) f = f y"
  by (simp_all add: bindE_def)

lemma bindE_eq_Inr: "bindE r f = Inr z \<longleftrightarrow> (\<exists>y. r = Inr y \<and> f y = Inr z)"
  by (cases r) simp_all

section \<open>Properties: the inverted residual block\<close>

lemma build_eops_total:
  "0 < d_head \<Longrightarrow> \<exists>es. build_eops d_in d_mid d_head ws pre tags = Inr es"
  by (induction tags) (auto simp: EW_MHSA_init_def)

text \<open>
  Claim C5. The constructor of a block succeeds whenever the head dimension is positive,
  and the block it returns has \<open>has_skip\<close> equal to
  \<open>dim_in = dim_out \<and> stride = 1 \<and> flag\<close>: with differing channel counts or a stride
  other than 1 the skip is off whatever the flag says. The value is a field of the block
  and \<open>iiRMB_forward\<close> only reads it.
\<close>

theorem C5_has_skip:
  "(0 < arg_dim_head a \<longrightarrow> (\<exists>blk. iiRMB_init a = Inr blk)) \<and>
   (\<forall>blk. iiRMB_init a = Inr blk \<longrightarrow>
      has_skip blk = (arg_dim_in a = arg_dim_out a \<and> arg_stride a = 1 \<and> arg_has_skip a) \<and>
      ((arg_dim_in a \<noteq> arg_dim_out a \<or> arg_stride a \<noteq> 1) \<longrightarrow> \<not> has_skip blk))"
proof (intro conjI impI allI)
  assume "0 < arg_dim_head a"
  then obtain es where
    "build_eops (arg_dim_in a) (nat \<lfloor>of_nat (arg_dim_in a) * arg_exp_ratio a\<rfloor>)
       (arg_dim_head a) (arg_window_size a) (arg_attn_pre a) (arg_hybrid_eops a) = Inr es"
    using build_eops_total by blast
  then show "\<exists>blk. iiRMB_init a = Inr blk"
    by (simp add: iiRMB_init_def)
next
  fix blk assume "iiRMB_init a = Inr blk"
  then show "has_skip blk = (arg_dim_in a = arg_dim_out a \<and> arg_stride a = 1 \<and> arg_has_skip a)"
    by (auto simp: iiRMB_init_def Let_def bindE_eq_Inr)
next
  fix blk assume "iiRMB_init a = Inr blk" "arg_dim_in a \<noteq> arg_dim_out a \<or> arg_stride a \<noteq> 1"
  then show "\<not> has_skip blk"
    by (auto simp: iiRMB_init_def Let_def bindE_eq_Inr)
qed

theorem C5_has_skip_witness:
  "(\<exists>blk. iiRMB_init (skip_args 64 64 1 True [0]) = Inr blk \<and> has_skip blk) \<and>
   (\<exists>blk. iiRMB_init (skip_args 64 64 2 True [0]) = Inr blk \<and> \<not> has_skip blk) \<and>
   (\<exists>blk. iiRMB_init (skip_args 32 64 1 True [0]) = Inr blk \<and> \<not> has_skip blk)"
proof -
  have a: "0 < arg_dim_head (skip_args d_in d_out strd flag tags)" for d_in d_out strd flag tags
    by (simp add: skip_args_def)
  show ?thesis
    using C5_has_skip [of "skip_args 64 64 1 True [0]"]
      C5_has_skip [of "skip_args 64 64 2 True [0]"]
      C5_has_skip [of "skip_args 32 64 1 True [0]"] a
    by (fastforce simp: skip_args_def)
qed

lemma build_eops_skip:
  "\<not> (0 \<le> t \<and> t \<le> 3) \<Longrightarrow>
   build_eops d_in d_mid d_head ws pre (t # tags) = build_eops d_in d_mid d_head ws pre tags"
  by (cases "build_eops d_in d_mid d_head ws pre tags") auto

lemma build_eops_filter:
  "build_eops d_in d_mid d_head ws pre tags =
   build_eops d_in d_mid d_head ws pre (filter (\<lambda>t. 0 \<le> t \<and> t \<le> 3) tags)"
proof (induction tags)
  case Nil
  show ?case by simp
next
  case (Cons t tags)
  show ?case
  proof (cases "0 \<le> t \<and> t \<le> 3")
    case True
    then show ?thesis
      using Cons.IH
      by (simp del: build_eops.simps add: build_eops.simps(2)[of _ _ _ _ _ t])
  next
    case False
    then show ?thesis
      using Cons.IH build_eops_skip[OF False] by simp
  qed
qed

text \<open>
  Claim C6, as stated, fails: the constructor called with the tags 0 and 7 returns a
  block, the one that the tag 0 alone gives (the invalid tag 7 is dropped), and this
  block's \<open>forward\<close> works.
\<close>

theorem C6_counterexample:
  "iiRMB_init (skip_args 64 64 1 True [0, 7]) = Inr tagged_block \<and>
   eops tagged_block = [Conv 64 256] \<and>
   iiRMB_forward tagged_block (1, 64, 14, 14) = Inr (1, 64, 14, 14)"
  by (simp add: skip_args_def tagged_block_def iiRMB_init_def iiRMB_forward_def norm_shape_def
      ConvNormAct_shape_def add_shape_def)

text \<open>
  Claim C6, amended. An invalid tag never makes the constructor fail: the block built is
  the block of the valid tags (0 to 3) alone, apart from the recorded tag list. When no
  valid tag is left the constructor still returns a block, without operators, and it is
  the first \<open>forward\<close> call that fails, with IndexError.
\<close>

theorem C6_invalid_tag_skipped:
  "iiRMB_init a =
     map_sum id (hybrid_eops_update (\<lambda>_. arg_hybrid_eops a))
       (iiRMB_init (a\<lparr>arg_hybrid_eops := filter (\<lambda>t. 0 \<le> t \<and> t \<le> 3) (arg_hybrid_eops a)\<rparr>)) \<and>
   (filter (\<lambda>t. 0 \<le> t \<and> t \<le> 3) (arg_hybrid_eops a) = [] \<longrightarrow>
      (\<exists>blk. iiRMB_init a = Inr blk \<and> eops blk = [] \<and>
         (\<forall>B H W. iiRMB_forward blk (B, arg_dim_in a, H, W) = Inl IndexError)))"
proof (intro conjI impI)
  let ?f = "filter (\<lambda>t. 0 \<le> t \<and> t \<le> 3) (arg_hybrid_eops a)"
  let ?b = "\<lambda>tags. build_eops (arg_dim_in a) (nat \<lfloor>of_nat (arg_dim_in a) * arg_exp_ratio a\<rfloor>)
       (arg_dim_head a) (arg_window_size a) (arg_attn_pre a) tags"
  have eq: "?b (arg_hybrid_eops a) = ?b ?f"
    by (rule build_eops_filter)
  show "iiRMB_init a =
     map_sum id (hybrid_eops_update (\<lambda>_. arg_hybrid_eops a)) (iiRMB_init (a\<lparr>arg_hybrid_eops := ?f\<rparr>))"
    by (cases "?b ?f") (simp_all add: iiRMB_init_def eq)
  assume "?f = []"
  then have "?b (arg_hybrid_eops a) = Inr []"
    using eq by simp
  then show "\<exists>blk. iiRMB_init a = Inr blk \<and> eops blk = [] \<and>
         (\<forall>B H W. iiRMB_forward blk (B, arg_dim_in a, H, W) = Inl IndexError)"
    by (simp add: iiRMB_init_def iiRMB_forward_def norm_shape_def)
qed

theorem C6_invalid_tag_skipped_witness:
  "\<exists>blk. iiRMB_init (skip_args 64 64 1 True [7]) = Inr blk \<and> eops blk = [] \<and>
     iiRMB_forward blk (1, 64, 14, 14) = Inl IndexError"
proof -
  have d: "arg_dim_in (skip_args 64 64 1 True [7]) = 64"
    by (simp add: skip_args_def)
  have "filter (\<lambda>t. 0 \<le> t \<and> t \<le> 3) (arg_hybrid_eops (skip_args 64 64 1 True [7])) = []"
    by (simp add: skip_args_def)
  with C6_invalid_tag_skipped [of "skip_args 64 64 1 True [7]"]
  obtain blk where b: "iiRMB_init (skip_args 64 64 1 True [7]) = Inr blk" "eops blk = []"
    and f: "\<forall>B H W. iiRMB_forward blk (B, arg_dim_in (skip_args 64 64 1 True [7]), H, W)
              = Inl IndexError"
    by blast
  from f have "iiRMB_forward blk (1, arg_dim_in (skip_args 64 64 1 True [7]), 14, 14)
      = Inl IndexError"
    by blast
  then have "iiRMB_forward blk (1, 64, 14, 14) = Inl IndexError"
    by (simp only: d)
  with b show ?thesis
    by blast
qed

section \<open>Properties: the backbone\<close>

text \<open>
  Claim C7. The model built with the default configuration and \<^verbatim>\<open>out_indices\<close>
  (0, 1, 2, 3, 4), applied to an input of shape (1, 3, 224, 224), returns five feature
  maps of shapes (1, 32, 112, 112), (1, 64, 56, 56), (1, 128, 28, 28), (1, 256, 14, 14)
  and (1, 512, 7, 7), in this order. The entries follow the order of the request: for
  \<^verbatim>\<open>out_indices\<close> (4, 0, 2) the result is the last, the first and the third of them.
\<close>

theorem C7_default_shapes:
  "bindE (EMO2_init (default_args [0, 1, 2, 3, 4])) (\<lambda>M. EMO2_forward M (1, 3, 224, 224))
     = Inr [(1, 32, 112, 112), (1, 64, 56, 56), (1, 128, 28, 28), (1, 256, 14, 14), (1, 512, 7, 7)] \<and>
   bindE (EMO2_init (default_args [4, 0, 2])) (\<lambda>M. EMO2_forward M (1, 3, 224, 224))
     = Inr [(1, 512, 7, 7), (1, 32, 112, 112), (1, 128, 28, 28)]"
  by code_simp

section \<open>Properties: the attention variants\<close>

text \<open>
  Claim C1. With \<^verbatim>\<open>attn_pre\<close> off, dropout inactive and the same weights, the hybrid
  variant returns on every input the elementwise sum of what the remote variant and the
  close variant return on it; when one of them raises, the hybrid variant raises the
  same exception. The proof uses no law of arithmetic: the two sides apply the same
  operations to the same operands in the same order, because the 1x1 projections act on
  each pixel on its own and so commute with the two tilings.
\<close>

theorem C1_hybrid_is_sum:
  "\<not> attn_pre P \<Longrightarrow>
   EW_MHSA_Hybrid_forward P x =
     add_result (EW_MHSA_Remote_forward P x) (EW_MHSA_Close_forward P x)"
proof (cases "window_geometry (window_size P) (nh x) (nw x)")
  case (Inl e)
  then show ?thesis
    by (simp add: EW_MHSA_Hybrid_forward_def EW_MHSA_Remote_forward_def
        EW_MHSA_Close_forward_def add_result_def)
next
  case (Inr g)
  assume "\<not> attn_pre P"
  with Inr show ?thesis
    by (auto simp add: EW_MHSA_Hybrid_forward_def EW_MHSA_Remote_forward_def
        EW_MHSA_Close_forward_def add_result_def attention_def Let_def
        tile_remote_def tile_close_def apply_pw_def
        rearrange_qk_def attn_map_def matmul_def transpose_last_def attend_def split_heads_def
        merge_heads_def untile_remote_def untile_close_def unpad_def crop_def add_t_def
        softmax_last_def scale_t_def split: if_splits)
qed

theorem C1_hybrid_is_sum_witness:
  "\<not> attn_pre (demo_mhsa 2 False) \<and>
   EW_MHSA_Hybrid_forward (demo_mhsa 2 False) (demo_tensor 3 3) =
     add_result (EW_MHSA_Remote_forward (demo_mhsa 2 False) (demo_tensor 3 3))
       (EW_MHSA_Close_forward (demo_mhsa 2 False) (demo_tensor 3 3)) \<and>
   map_sum id shape_of (EW_MHSA_Hybrid_forward (demo_mhsa 2 False) (demo_tensor 3 3))
     = Inr (1, 2, 3, 3)"
proof -
  have a: "\<not> attn_pre (demo_mhsa 2 False)"
    by (simp add: demo_mhsa_def)
  have s: "map_sum id shape_of (EW_MHSA_Hybrid_forward (demo_mhsa 2 False) (demo_tensor 3 3))
     = Inr (1, 2, 3, 3)"
    by code_simp
  show ?thesis
    using a s C1_hybrid_is_sum [OF a, of "demo_tensor 3 3"] by simp
qed

section \<open>Properties: freezing\<close>

lemma stage_frozen_freeze_stage: "stage_frozen (freeze_stage m)"
  by (simp add: stage_frozen_def freeze_stage_def list_all_iff)

lemma freeze_loop_length:
  "freeze_loop i k sts = Inr sts' \<Longrightarrow> length sts' = length sts"
  by (induction k arbitrary: i sts) (auto split: if_splits)

lemma freeze_loop_nth:
  "freeze_loop i k sts = Inr sts' \<Longrightarrow> j < length sts \<Longrightarrow>
   sts' ! j = (if i \<le> j \<and> j < i + k then freeze_stage (sts ! j) else sts ! j)"
proof (induction k arbitrary: i sts)
  case 0
  then show ?case by auto
next
  case (Suc k)
  from Suc.prems(1) have i: "i < length sts"
    and r: "freeze_loop (Suc i) k (sts[i := freeze_stage (sts ! i)]) = Inr sts'"
    by (auto split: if_splits)
  from Suc.IH [OF r] Suc.prems(2) show ?case
    by (cases "j = i") (auto simp: nth_list_update)
qed

lemma freeze_loop_bound:
  "freeze_loop i k sts = Inr sts' \<Longrightarrow> k = 0 \<or> i + k \<le> length sts"
  by (induction k arbitrary: i sts) (fastforce split: if_splits)+

lemma freeze_loop_total:
  "i + k \<le> length sts \<Longrightarrow> \<exists>sts'. freeze_loop i k sts = Inr sts'"
  by (induction k arbitrary: i sts) auto

lemma freeze_loop_frozen:
  assumes "freeze_loop 0 k sts = Inr sts'"
  shows "k \<le> length sts' \<and> list_all stage_frozen (take k sts')"
proof -
  have len: "length sts' = length sts"
    using assms by (rule freeze_loop_length)
  have k: "k \<le> length sts"
    using freeze_loop_bound [OF assms] by auto
  have "stage_frozen (sts' ! j)" if "j < k" for j
    using freeze_loop_nth [OF assms, of j] that k by (simp add: stage_frozen_freeze_stage)
  then show ?thesis
    using k len by (simp add: list_all_length)
qed

lemma freeze_stages_frozen:
  "freeze_stages S = Inr S1 \<Longrightarrow>
   frozen_upto S1 \<and> frozen_stages S1 = frozen_stages S \<and> norm_eval S1 = norm_eval S"
  by (auto simp: freeze_stages_def frozen_upto_def bindE_eq_Inr dest: freeze_loop_frozen)

lemma stage_frozen_bn_eval:
  "stage_frozen m \<Longrightarrow>
   stage_frozen (map (\<lambda>l. if kind l = BatchNorm then l\<lparr>training := False\<rparr> else l) m)"
  by (induction m) (auto simp: stage_frozen_def)

lemma frozen_upto_bn_eval:
  "frozen_upto S \<Longrightarrow>
   frozen_upto (S\<lparr>stage_layers :=
      map (map (\<lambda>l. if kind l = BatchNorm then l\<lparr>training := False\<rparr> else l)) (stage_layers S)\<rparr>)"
  by (auto simp: frozen_upto_def list_all_length stage_frozen_bn_eval)

lemma train_frozen:
  assumes "train mode S = Inr S1"
  shows "frozen_upto S1 \<and> frozen_stages S1 = frozen_stages S"
proof -
  let ?S0 = "S\<lparr>self_training := mode,
                 stage_layers := map (map (\<lambda>l. l\<lparr>training := mode\<rparr>)) (stage_layers S)\<rparr>"
  obtain S2 where f: "freeze_stages ?S0 = Inr S2"
    using assms by (cases "freeze_stages ?S0") (simp_all add: train_def Let_def)
  have r: "S1 = (if mode \<and> norm_eval S2 then
             S2\<lparr>stage_layers :=
                    map (map (\<lambda>l. if kind l = BatchNorm then l\<lparr>training := False\<rparr> else l))
                      (stage_layers S2)\<rparr> else S2)"
    using assms f by (auto simp: train_def Let_def)
  from freeze_stages_frozen [OF f] have "frozen_upto S2" "frozen_stages S2 = frozen_stages S"
    by simp_all
  then show ?thesis
    using r frozen_upto_bn_eval [of S2] by auto
qed

lemma freeze_stages_total:
  "nat (frozen_stages S + 1) \<le> length (stage_layers S) \<Longrightarrow> \<exists>S1. freeze_stages S = Inr S1"
  using freeze_loop_total [of 0 "nat (frozen_stages S + 1)" "stage_layers S"]
  by (auto simp: freeze_stages_def)

lemma train_total:
  "nat (frozen_stages S + 1) \<le> length (stage_layers S) \<Longrightarrow> \<exists>S1. train mode S = Inr S1"
proof -
  assume a: "nat (frozen_stages S + 1) \<le> length (stage_layers S)"
  let ?S0 = "S\<lparr>self_training := mode,
                 stage_layers := map (map (\<lambda>l. l\<lparr>training := mode\<rparr>)) (stage_layers S)\<rparr>"
  from a have "nat (frozen_stages ?S0 + 1) \<le> length (stage_layers ?S0)" by simp
  from freeze_stages_total [OF this] obtain S2 where "freeze_stages ?S0 = Inr S2" by blast
  then show ?thesis by (simp add: train_def Let_def)
qed

lemma train_seq_frozen:
  "frozen_upto S \<Longrightarrow>
   \<exists>S2. train_seq modes S = Inr S2 \<and> frozen_upto S2 \<and> frozen_stages S2 = frozen_stages S"
proof (induction modes arbitrary: S)
  case Nil
  then show ?case by simp
next
  case (Cons mode modes)
  from Cons.prems have "nat (frozen_stages S + 1) \<le> length (stage_layers S)"
    by (simp add: frozen_upto_def)
  from train_total [OF this] obtain S1 where t: "train mode S = Inr S1" by blast
  from train_frozen [OF t] have f: "frozen_upto S1" and k: "frozen_stages S1 = frozen_stages S"
    by simp_all
  from Cons.IH [OF f] k t show ?case by auto
qed


text \<open>
  Claim C8. Let \<open>k\<close> be \<^verbatim>\<open>frozen_stages\<close>. When \<^verbatim>\<open>_freeze_stages\<close> returns, \<open>k\<close> is
  unchanged, the stages 0 to \<open>k\<close> exist, every module of theirs (the normalisation layers
  among them) is in evaluation mode and every parameter of theirs has \<^verbatim>\<open>requires_grad\<close>
  off; from then on every sequence of calls \<^verbatim>\<open>train(mode)\<close> returns and leaves all of
  this so, for the same \<open>k\<close>. Indeed \<^verbatim>\<open>train\<close> establishes it from any state, since it
  freezes again after switching the mode. \<^verbatim>\<open>_freeze_stages\<close> returns whenever the stages
  to freeze exist.
\<close>

theorem C8_frozen_stages_stay_frozen:
  "(\<forall>S1. freeze_stages S = Inr S1 \<longrightarrow>
      frozen_prefix (frozen_stages S) S1 \<and> frozen_stages S1 = frozen_stages S \<and>
      (\<forall>modes. \<exists>S2. train_seq modes S1 = Inr S2 \<and>
         frozen_prefix (frozen_stages S) S2 \<and> frozen_stages S2 = frozen_stages S)) \<and>
   (\<forall>mode S1. train mode S = Inr S1 \<longrightarrow>
      frozen_prefix (frozen_stages S) S1 \<and> frozen_stages S1 = frozen_stages S) \<and>
   (frozen_stages S < int (length (stage_layers S)) \<longrightarrow> (\<exists>S1. freeze_stages S = Inr S1))"
proof (intro conjI allI impI)
  fix S1 assume f: "freeze_stages S = Inr S1"
  from freeze_stages_frozen [OF f] have u: "frozen_upto S1"
    and k: "frozen_stages S1 = frozen_stages S"
    by simp_all
  from u k show "frozen_prefix (frozen_stages S) S1"
    by (simp add: frozen_upto_def frozen_prefix_def)
  from k show "frozen_stages S1 = frozen_stages S" .
  show "\<exists>S2. train_seq modes S1 = Inr S2 \<and>
         frozen_prefix (frozen_stages S) S2 \<and> frozen_stages S2 = frozen_stages S" for modes
  proof -
    from train_seq_frozen [OF u, of modes] obtain S2 where
      t: "train_seq modes S1 = Inr S2" and u2: "frozen_upto S2"
      and k2: "frozen_stages S2 = frozen_stages S1"
      by blast
    from u2 k2 k have "frozen_prefix (frozen_stages S) S2"
      by (simp add: frozen_upto_def frozen_prefix_def)
    with t k2 k show ?thesis by simp
  qed
next
  fix mode S1 assume t: "train mode S = Inr S1"
  from train_frozen [OF t] have u: "frozen_upto S1"
    and k: "frozen_stages S1 = frozen_stages S"
    by simp_all
  from u k show "frozen_prefix (frozen_stages S) S1"
    by (simp add: frozen_upto_def frozen_prefix_def)
  from k show "frozen_stages S1 = frozen_stages S" .
next
  assume "frozen_stages S < int (length (stage_layers S))"
  then have "nat (frozen_stages S + 1) \<le> length (stage_layers S)"
    by linarith
  then show "\<exists>S1. freeze_stages S = Inr S1"
    by (rule freeze_stages_total)
qed

theorem C8_frozen_stages_stay_frozen_witness:
  "(\<exists>S1. freeze_stages (demo_state 1 False) = Inr S1 \<and> frozen_prefix 1 S1 \<and>
      (\<exists>S2. train_seq [True, False, True] S1 = Inr S2 \<and> frozen_prefix 1 S2 \<and>
         frozen_stages S2 = 1)) \<and>
   map_sum id (\<lambda>S. map (map training) (stage_layers S))
     (bindE (freeze_stages (demo_state 1 False)) (train True))
     = Inr [[False, False], [False, False], [True, True], [True, True], [True, True]] \<and>
   map_sum id (\<lambda>S. map (map requires_grad) (stage_layers S))
     (bindE (freeze_stages (demo_state 1 False)) (train True))
     = Inr [[[False], [False, False]], [[False], [False, False]], [[True], [True, True]],
            [[True], [True, True]], [[True], [True, True]]]"
proof -
  have k: "frozen_stages (demo_state 1 False) = 1"
    by (simp add: demo_state_def)
  have "frozen_stages (demo_state 1 False) < int (length (stage_layers (demo_state 1 False)))"
    by (simp add: demo_state_def)
  with C8_frozen_stages_stay_frozen [of "demo_state 1 False"]
  have 1: "\<exists>S1. freeze_stages (demo_state 1 False) = Inr S1 \<and> frozen_prefix 1 S1 \<and>
      (\<exists>S2. train_seq [True, False, True] S1 = Inr S2 \<and> frozen_prefix 1 S2 \<and>
         frozen_stages S2 = 1)"
    unfolding k by blast
  have 2: "map_sum id (\<lambda>S. map (map training) (stage_layers S))
     (bindE (freeze_stages (demo_state 1 False)) (train True))
     = Inr [[False, False], [False, False], [True, True], [True, True], [True, True]]"
    by code_simp
  have 3: "map_sum id (\<lambda>S. map (map requires_grad) (stage_layers S))
     (bindE (freeze_stages (demo_state 1 False)) (train True))
     = Inr [[[False], [False, False]], [[False], [False, False]], [[True], [True, True]],
            [[True], [True, True]], [[True], [True, True]]]"
    by code_simp
  from 1 2 3 show ?thesis by blast
qed


section \<open>Properties: loading a checkpoint\<close>

lemma update_matching_keys:
  "map fst (update_matching ckpt own) = map fst own"
proof (induction ckpt arbitrary: own)
  case Nil
  show ?case by simp
next
  case (Cons e ckpt)
  obtain k t where e: "e = (k, t)" by (cases e)
  show ?case
    by (simp add: e Cons.IH AList.update_keys image_iff)
qed

lemma update_matching_map_of:
  "distinct (map fst ckpt) \<Longrightarrow>
   map_of (update_matching ckpt own) k =
     (if k \<in> set (map fst own)
      then (case map_of ckpt k of None \<Rightarrow> map_of own k | Some t \<Rightarrow> Some t) else None)"
proof (induction ckpt arbitrary: own)
  case Nil
  show ?case
    by (auto simp: map_of_eq_None_iff)
next
  case (Cons e ckpt)
  obtain k0 t0 where e: "e = (k0, t0)" by (cases e)
  from Cons.prems have d: "distinct (map fst ckpt)" and n: "k0 \<notin> set (map fst ckpt)"
    by (simp_all add: e)
  have none: "map_of ckpt k0 = None"
    using n by (simp add: map_of_eq_None_iff)
  show ?case
  proof (cases "k0 \<in> set (map fst own)")
    case True
    have keys: "map fst (AList.update k0 t0 own) = map fst own"
      using True by (simp add: AList.update_keys image_iff)
    show ?thesis
      using True none
      by (simp add: e Cons.IH [OF d] keys AList.update_conv' split: option.splits)
  next
    case False
    then show ?thesis
      using none by (auto simp: e Cons.IH [OF d] split: option.splits)
  qed
qed

lemma update_matching_filter:
  "update_matching ckpt own =
   update_matching (filter (\<lambda>e. fst e \<in> set (map fst own)) ckpt) own"
proof (induction ckpt arbitrary: own)
  case Nil
  show ?case by simp
next
  case (Cons e ckpt)
  obtain k t where e: "e = (k, t)" by (cases e)
  show ?case
  proof (cases "k \<in> set (map fst own)")
    case True
    have keys: "map fst (AList.update k t own) = map fst own"
      using True by (simp add: AList.update_keys image_iff)
    show ?thesis
      using True Cons.IH [of "AList.update k t own"] by (simp add: e keys)
  next
    case False
    then show ?thesis
      using Cons.IH [of own] by (simp add: e)
  qed
qed

lemma legacy_scalar_fits:
  "legacy_scalar p inp = Inr inp' \<and> p_shape inp' = p_shape p \<longleftrightarrow>
   fits p inp \<and> inp' = loaded p inp"
  by (cases "p_data inp") (auto simp: legacy_scalar_def fits_def loaded_def)

lemma load_params_ok:
  "\<forall>e \<in> set own. \<exists>inp. map_of sd (fst e) = Some inp \<and> fits (snd e) inp \<Longrightarrow>
   load_params own sd = Inr (map (\<lambda>e. (fst e, loaded (snd e) (the (map_of sd (fst e))))) own, False)"
proof (induction own)
  case Nil
  show ?case by simp
next
  case (Cons e own)
  obtain name p where e: "e = (name, p)" by (cases e)
  from Cons.prems obtain inp where i: "map_of sd name = Some inp" "fits p inp"
    by (auto simp: e)
  from i(2) have l: "legacy_scalar p inp = Inr (loaded p inp)" "p_shape (loaded p inp) = p_shape p"
    using legacy_scalar_fits [of p inp "loaded p inp"] by auto
  from Cons.prems have "\<forall>e \<in> set own. \<exists>inp. map_of sd (fst e) = Some inp \<and> fits (snd e) inp"
    by simp
  from Cons.IH [OF this] show ?case
    by (simp add: e i l)
qed

lemma load_params_bad:
  "e \<in> set own \<Longrightarrow> map_of sd (fst e) = Some inp \<Longrightarrow> \<not> fits (snd e) inp \<Longrightarrow>
   load_params own sd = Inr (ps, bad) \<Longrightarrow> bad"
proof (induction own arbitrary: ps bad)
  case Nil
  then show ?case by simp
next
  case (Cons e' own)
  obtain name p where e': "e' = (name, p)" by (cases e')
  show ?case
  proof (cases "e = e'")
    case True
    with Cons.prems have i: "map_of sd name = Some inp" and nf: "\<not> fits p inp"
      by (simp_all add: e')
    from Cons.prems(4) show ?thesis
      using nf legacy_scalar_fits [of p inp]
      by (cases "legacy_scalar p inp")
        (auto simp: e' i bindE_eq_Inr split: if_splits prod.splits)
  next
    case False
    with Cons.prems(1) have m: "e \<in> set own" by simp
    from Cons.prems(4) obtain ps' bad' where r: "load_params own sd = Inr (ps', bad')"
      and b: "bad' \<longrightarrow> bad"
      by (auto simp: e' bindE_eq_Inr split: option.splits if_splits prod.splits)
    from Cons.IH [OF m Cons.prems(2,3) r] b show ?thesis by simp
  qed
qed

lemma fits_self: "fits p p" and loaded_self: "loaded p p = p"
  by (auto simp: fits_def loaded_def)

lemma map_of_sd:
  assumes "distinct (map fst own)" "distinct (map fst ckpt)" "e \<in> set own"
  shows "map_of (update_matching ckpt own) (fst e) =
           Some (case map_of ckpt (fst e) of None \<Rightarrow> snd e | Some t \<Rightarrow> t)"
proof -
  have "map_of own (fst e) = Some (snd e)"
    using assms(1,3) by (cases e) simp
  moreover have "fst e \<in> set (map fst own)"
    using assms(3) by simp
  ultimately show ?thesis
    using update_matching_map_of [OF assms(2), of own "fst e"]
    by (simp split: option.splits)
qed

text \<open>
  Claim C2, as stated, fails: a checkpoint entry \<^verbatim>\<open>head.weight\<close> of shape (5, 3) for a
  parameter \<^verbatim>\<open>head.weight\<close> of shape (2, 3) is not skipped; it is copied into the dict
  handed to \<^verbatim>\<open>load_state_dict\<close>, which raises RuntimeError (size mismatch).
\<close>

theorem C2_counterexample:
  "init_weights (Some [(''head.weight'', demo_param [5, 3] 1), (''extra'', demo_param [2] 1)])
     demo_own = Inl RuntimeError"
  by (simp add: init_weights_def demo_own_def load_state_dict_def legacy_scalar_def
      demo_param_def AList.update_def)

text \<open>
  Claim C2, amended. For dicts (distinct keys): checkpoint entries whose names the model
  does not have are ignored; when every checkpoint entry whose name the model has also
  fits the parameter's shape, the load completes and exactly these entries are copied,
  the other parameters keeping their values; otherwise the load raises.
\<close>

theorem C2_load_amended:
  "distinct (map fst own) \<Longrightarrow> distinct (map fst ckpt) \<Longrightarrow>
   init_weights (Some ckpt) own =
     init_weights (Some (filter (\<lambda>e. fst e \<in> set (map fst own)) ckpt)) own \<and>
   (list_all (entry_ok ckpt) own \<longrightarrow>
      init_weights (Some ckpt) own = Inr (map (entry_loaded ckpt) own)) \<and>
   (\<not> list_all (entry_ok ckpt) own \<longrightarrow> (\<exists>err. init_weights (Some ckpt) own = Inl err))"
proof (intro conjI impI)
  assume d: "distinct (map fst own)" "distinct (map fst ckpt)"
  let ?sd = "update_matching ckpt own"
  show "init_weights (Some ckpt) own =
     init_weights (Some (filter (\<lambda>e. fst e \<in> set (map fst own)) ckpt)) own"
    using update_matching_filter [of ckpt own] by (simp add: init_weights_def)
  have keys: "list_all (\<lambda>k. k \<in> set (map fst own)) (map fst ?sd)"
    by (simp add: update_matching_keys list_all_iff)
  {
    assume ok: "list_all (entry_ok ckpt) own"
    have "\<forall>e \<in> set own. \<exists>inp. map_of ?sd (fst e) = Some inp \<and> fits (snd e) inp"
    proof
      fix e assume e: "e \<in> set own"
      from ok e have "entry_ok ckpt e" by (simp add: list_all_iff)
      then show "\<exists>inp. map_of ?sd (fst e) = Some inp \<and> fits (snd e) inp"
        using map_of_sd [OF d e] by (auto simp: entry_ok_def fits_self split: option.splits)
    qed
    from load_params_ok [OF this]
    have "load_params own ?sd =
        Inr (map (\<lambda>e. (fst e, loaded (snd e) (the (map_of ?sd (fst e))))) own, False)" .
    moreover have "map (\<lambda>e. (fst e, loaded (snd e) (the (map_of ?sd (fst e))))) own
        = map (entry_loaded ckpt) own"
    proof (rule map_cong [OF refl])
      fix e assume e: "e \<in> set own"
      show "(fst e, loaded (snd e) (the (map_of ?sd (fst e)))) = entry_loaded ckpt e"
        using map_of_sd [OF d e] by (simp add: entry_loaded_def loaded_self split: option.splits)
    qed
    ultimately show "init_weights (Some ckpt) own = Inr (map (entry_loaded ckpt) own)"
      using keys by (simp add: init_weights_def load_state_dict_def)
  }
  {
    assume "\<not> list_all (entry_ok ckpt) own"
    then obtain e where e: "e \<in> set own" and n: "\<not> entry_ok ckpt e"
      by (auto simp: list_all_iff)
    from n obtain t where t: "map_of ckpt (fst e) = Some t" and nf: "\<not> fits (snd e) t"
      by (auto simp: entry_ok_def split: option.splits)
    have m: "map_of ?sd (fst e) = Some t"
      using map_of_sd [OF d e] t by simp
    show "\<exists>err. init_weights (Some ckpt) own = Inl err"
    proof (cases "load_params own ?sd")
      case (Inl err)
      then show ?thesis by (simp add: init_weights_def load_state_dict_def)
    next
      case (Inr r)
      obtain ps bad where r: "r = (ps, bad)" by (cases r)
      from load_params_bad [OF e m nf] Inr r have bad by simp
      then show ?thesis using Inr r by (simp add: init_weights_def load_state_dict_def)
    qed
  }
qed

theorem C2_load_amended_witness:
  "init_weights (Some [(''stem.bias'', demo_param [4] 1), (''extra'', demo_param [2] 1)]) demo_own
     = Inr [(''head.weight'', demo_param [2, 3] 0), (''stem.bias'', demo_param [4] 1)]"
proof -
  let ?ckpt = "[(''stem.bias'', demo_param [4] 1), (''extra'', demo_param [2] 1)]"
  have 1: "distinct (map fst demo_own)" by (simp add: demo_own_def)
  have 2: "distinct (map fst ?ckpt)" by simp
  have 3: "list_all (entry_ok ?ckpt) demo_own"
    by (simp add: demo_own_def entry_ok_def fits_def demo_param_def)
  have 4: "map (entry_loaded ?ckpt) demo_own
     = [(''head.weight'', demo_param [2, 3] 0), (''stem.bias'', demo_param [4] 1)]"
    by (simp add: demo_own_def entry_loaded_def loaded_def demo_param_def)
  from C2_load_amended [OF 1 2] 3 have
    "init_weights (Some ?ckpt) demo_own = Inr (map (entry_loaded ?ckpt) demo_own)"
    by blast
  then show ?thesis
    by (simp only: 4)
qed

section \<open>Properties: tiling and un-tiling\<close>















section \<open>Properties: a single global window\<close>

















end
